theory Spec2Isabelle
  imports Main "HOL-Library.Word"
begin

section \<open>Python values used by the debugger\<close>

text \<open>
  Exceptions of the source are values.  \<open>HostError\<close> stands for whatever a test or a
  parser of the host engine raises; \<open>SystemExit\<close> is what \<open>exit(0)\<close> raises;
  \<open>RecursionError\<close> is what a call raises when no frame is free for it.
\<close>

datatype error =
  ValueError | AttributeError | NameError | SystemExit | RecursionError | HostError nat

text \<open>The outcome of a call: it returns a value or raises.\<close>

datatype 'a outcome = Returned 'a | Raised error

type_synonym bytes = "8 word list"

subsection \<open>Strings\<close>

text \<open>
  A Python \<open>str\<close> is modelled as a \<open>string\<close> whose characters are the code points
  below 256.  \<open>str.startswith\<close>, slicing, \<open>str.split\<close>, \<open>str.strip\<close>,
  \<open>str.lower\<close> and \<open>str.join\<close> are written out for this range.
\<close>

definition startswith :: "string \<Rightarrow> string \<Rightarrow> bool" where
  "startswith s p = (take (length p) s = p)"

definition is_space :: "char \<Rightarrow> bool" where
  "is_space c = (let n = (of_char c :: nat) in
     (9 \<le> n \<and> n \<le> 13) \<or> (28 \<le> n \<and> n \<le> 32) \<or> n = 133 \<or> n = 160)"

definition strip :: "string \<Rightarrow> string" where
  "strip s = rev (dropWhile is_space (rev (dropWhile is_space s)))"

definition lower_char :: "char \<Rightarrow> char" where
  "lower_char c = (let n = (of_char c :: nat) in
     if (65 \<le> n \<and> n \<le> 90) \<or> (192 \<le> n \<and> n \<le> 222 \<and> n \<noteq> 215)
     then char_of (n + 32) else c)"

definition lower :: "string \<Rightarrow> string" where
  "lower s = map lower_char s"

fun split :: "char \<Rightarrow> string \<Rightarrow> string list" where
  "split sep [] = [[]]"
| "split sep (c # cs) =
     (if c = sep then [] # split sep cs
      else (case split sep cs of [] \<Rightarrow> [[c]] | w # ws \<Rightarrow> (c # w) # ws))"

fun join :: "string \<Rightarrow> string list \<Rightarrow> string" where
  "join sep [] = []"
| "join sep [w] = w"
| "join sep (w # ws) = w @ sep @ join sep ws"

subsection \<open>\<open>int(str)\<close>\<close>

text \<open>
  Python's \<open>int\<close> on a string.  The whitespace it drops around the number is not the
  one of \<open>str.strip\<close>: the separators 28 to 31 are not part of it.  One sign is
  allowed, and the rest is decimal digits in groups separated by single underscores.
  Anything else raises \<open>ValueError\<close>.  So does a number of more digits than the
  interpreter's limit \<open>max_str_digits\<close>, when the limit is set (it is 0 when there is
  none, 4300 by default where there is one) and the number has more than 640 digits.
\<close>

definition is_int_space :: "char \<Rightarrow> bool" where
  "is_int_space c = (let n = (of_char c :: nat) in
     (9 \<le> n \<and> n \<le> 13) \<or> n = 32 \<or> n = 133 \<or> n = 160)"

definition int_strip :: "string \<Rightarrow> string" where
  "int_strip s = rev (dropWhile is_int_space (rev (dropWhile is_int_space s)))"

definition is_digit :: "char \<Rightarrow> bool" where
  "is_digit c = (let n = (of_char c :: nat) in 48 \<le> n \<and> n \<le> 57)"

definition digit_groups_ok :: "string \<Rightarrow> bool" where
  "digit_groups_ok s = list_all (\<lambda>g. g \<noteq> [] \<and> list_all is_digit g) (split (CHR ''_'') s)"

definition digits_value :: "string \<Rightarrow> int" where
  "digits_value s = foldl (\<lambda>acc c. 10 * acc + (int (of_char c) - 48)) 0 s"

definition too_many_digits :: "nat \<Rightarrow> string \<Rightarrow> bool" where
  "too_many_digits max_str_digits ds =
     (640 < length ds \<and> 0 < max_str_digits \<and> max_str_digits < length ds)"

definition py_int :: "nat \<Rightarrow> string \<Rightarrow> error + int" where
  "py_int max_str_digits s =
     (let t = int_strip s;
          neg = startswith t ''-'';
          body = (if startswith t ''-'' \<or> startswith t ''+'' then drop 1 t else t);
          ds = filter (\<lambda>c. c \<noteq> CHR ''_'') body
      in if digit_groups_ok body \<and> \<not> too_many_digits max_str_digits ds
         then Inr ((if neg then -1 else 1) * digits_value ds)
         else Inl ValueError)"

section \<open>The host engine's data, as the debugger uses it\<close>

text \<open>
  Modelled from the spec: the \<open>TestResult\<close> classes of the \<open>magic\<close> module are not
  part of the sources.  A result is a successful outcome, which may carry a length in
  bytes, or a \<open>FailedTest\<close> carrying a message; its truth value tells a match from a
  non-match.
\<close>

datatype TestResult = MatchedTest "nat option" | FailedTest string

fun truthy :: "TestResult \<Rightarrow> bool" where
  "truthy (MatchedTest _) = True"
| "truthy (FailedTest _) = False"

fun is_FailedTest :: "TestResult \<Rightarrow> bool" where
  "is_FailedTest (FailedTest _) = True"
| "is_FailedTest (MatchedTest _) = False"

text \<open>
  A \<open>pathlib\<close> path (POSIX flavour): an anchor (\<open>/\<close> or empty) and the names after
  it.  \<open>str\<close> of the path joins them, with \<open>.\<close> for the empty path; \<open>name\<close> is the
  last name, empty when there is none.
\<close>

record py_path =
  anchor :: string
  names :: "string list"

definition path_str :: "py_path \<Rightarrow> string" where
  "path_str p = (if anchor p = [] \<and> names p = [] then ''.''
                 else anchor p @ join ''/'' (names p))"

definition path_name :: "py_path \<Rightarrow> string" where
  "path_name p = (if names p = [] then [] else last (names p))"

text \<open>
  Modelled from the spec: the fields of a \<open>MagicTest\<close> the debugger reads.  \<open>test_id\<close>
  is the identity of the object (what \<open>is\<close> compares); \<open>mimetypes\<close> and
  \<open>all_extensions\<close> hold what the methods of these names return.
\<close>

record source_info =
  path :: py_path
  line :: int
  original_line :: "string option"

record MagicTest =
  test_id :: nat
  source_info :: "source_info option"
  mimetypes :: "string set"
  all_extensions :: "string set"

text \<open>
  Modelled from the spec: the \<open>Wildcard\<close> class is not part of the sources.  A pattern
  is a glob in which \<open>*\<close> stands for any run of characters and \<open>?\<close> for any one
  character; it is contained in a set when it matches at least one member.
\<close>

fun wildcard_match :: "string \<Rightarrow> string \<Rightarrow> bool" where
  "wildcard_match [] s = (s = [])"
| "wildcard_match (p # ps) [] = (p = CHR ''*'' \<and> wildcard_match ps [])"
| "wildcard_match (p # ps) (c # cs) =
     (if p = CHR ''*'' then wildcard_match ps (c # cs) \<or> wildcard_match (p # ps) cs
      else (p = CHR ''?'' \<or> p = c) \<and> wildcard_match ps cs)"

definition is_contained_in :: "string \<Rightarrow> string set \<Rightarrow> bool" where
  "is_contained_in pattern items = (\<exists>item \<in> items. wildcard_match pattern item)"

section \<open>Breakpoints\<close>

datatype Breakpoint =
    FailedBreakpoint Breakpoint
  | MatchedBreakpoint Breakpoint
  | MimeBreakpoint string
  | ExtensionBreakpoint string
  | FileBreakpoint string int

text \<open>\<open>should_break\<close> of each breakpoint class, on a test that is present.\<close>

fun Breakpoint_should_break ::
  "Breakpoint \<Rightarrow> MagicTest \<Rightarrow> bytes \<Rightarrow> int \<Rightarrow> TestResult option \<Rightarrow> TestResult option \<Rightarrow> bool"
where
  "Breakpoint_should_break (FailedBreakpoint parent) test data absolute_offset parent_match result =
     ((result = None \<or> is_FailedTest (the result)) \<and>
      Breakpoint_should_break parent test data absolute_offset parent_match result)"
| "Breakpoint_should_break (MatchedBreakpoint parent) test data absolute_offset parent_match result =
     (result \<noteq> None \<and> \<not> is_FailedTest (the result) \<and>
      Breakpoint_should_break parent test data absolute_offset parent_match result)"
| "Breakpoint_should_break (MimeBreakpoint mimetype) test data absolute_offset parent_match result =
     is_contained_in mimetype (mimetypes test)"
| "Breakpoint_should_break (ExtensionBreakpoint ext) test data absolute_offset parent_match result =
     (ext \<in> all_extensions test)"
| "Breakpoint_should_break (FileBreakpoint filename line_no) test data absolute_offset parent_match result =
     (if source_info test = None \<or> line (the (source_info test)) \<noteq> line_no then False
      else if CHR ''/'' \<in> set filename
           then path_str (path (the (source_info test))) = filename
           else path_name (path (the (source_info test))) = filename)"

subsection \<open>Parsing a breakpoint\<close>

text \<open>
  What parsing takes from the interpreter and the host: the limit on the digits of
  \<open>int\<close>; the number of free frames the call of a class of this module needs to run
  an \<open>__init__\<close> that calls nothing (the frame of \<open>__init__\<close>, and one more where the
  interpreter counts the call of the class itself); and the number of free frames
  \<open>Wildcard.parse\<close> needs on a pattern.
\<close>

record runtime =
  int_max_str_digits :: nat
  init_frames :: nat
  wildcard_frames :: "string \<Rightarrow> nat"






definition FileBreakpoint_init :: "runtime \<Rightarrow> nat \<Rightarrow> string \<Rightarrow> int \<Rightarrow> Breakpoint outcome" where
  "FileBreakpoint_init rt frames filename line_no =
     (if frames < init_frames rt then Raised RecursionError
      else Returned (FileBreakpoint filename line_no))"



definition FileBreakpoint_parse :: "runtime \<Rightarrow> nat \<Rightarrow> string \<Rightarrow> Breakpoint option outcome" where
  "FileBreakpoint_parse rt frames command =
     (if frames = 0 then Raised RecursionError
      else
        (let pieces = split (CHR '':'') command;
             filename = hd pieces;
             remainder = tl pieces
         in if remainder = [] then Returned None
            else (case py_int (int_max_str_digits rt) (join [] remainder) of
                    Inl e \<Rightarrow> (if e = ValueError then Returned None else Raised e)
                  | Inr line_no \<Rightarrow>
                      if line_no \<le> 0 then Returned None
                      else (case FileBreakpoint_init rt (frames - 1) filename line_no of
                              Raised e \<Rightarrow> Raised e
                            | Returned b \<Rightarrow> Returned (Some b)))))"





section \<open>Escaping of bytes\<close>

text \<open>
  \<open>string_escape\<close> on a byte string: the escapes of its bytes, joined.  The case of one
  integer is given for the values a byte has; \<open>hex_digit\<close> is one digit of the format
  \<open>02X\<close>.
\<close>

definition hex_digit :: "nat \<Rightarrow> char" where
  "hex_digit n = (if n < 10 then char_of (48 + n) else char_of (55 + n))"

definition string_escape_int :: "8 word \<Rightarrow> string" where
  "string_escape_int b =
     (let n = unat b
      in if n = 10 then [CHR 0x5C, CHR ''n'']
         else if n = 9 then [CHR 0x5C, CHR ''t'']
         else if n = 13 then [CHR 0x5C, CHR ''r'']
         else if n = 0 then [CHR 0x5C, CHR ''0'']
         else if n = 92 then [CHR 0x5C, CHR 0x5C]
         else if 32 \<le> n \<and> n \<le> 126 then [char_of n]
         else [CHR 0x5C, CHR ''x'', hex_digit (n div 16), hex_digit (n mod 16)])"

definition string_escape :: "bytes \<Rightarrow> string" where
  "string_escape bs = concat (map string_escape_int bs)"

definition printable :: "char \<Rightarrow> bool" where
  "printable c = (32 \<le> (of_char c :: nat) \<and> (of_char c :: nat) \<le> 126)"

section \<open>Variables\<close>

text \<open>
  A \<open>Variable\<close> holds its list of possibilities and the attribute \<open>_value\<close>, here
  \<open>stored_value\<close>.  The setter of the property \<open>value\<close> raises \<open>ValueError\<close> on a
  value that is not in the list and assigns otherwise; the variable after the call is
  returned in both cases.  The constructor assigns \<open>_value\<close> and then goes through the
  setter, so it raises where the setter does.
\<close>

record 'a Variable =
  possibilities :: "'a list"
  stored_value :: 'a

definition Variable_set_value :: "'a Variable \<Rightarrow> 'a \<Rightarrow> unit outcome \<times> 'a Variable" where
  "Variable_set_value self new_value =
     (if new_value \<notin> set (possibilities self) then (Raised ValueError, self)
      else (Returned (), self\<lparr>stored_value := new_value\<rparr>))"

definition Variable_init :: "'a list \<Rightarrow> 'a \<Rightarrow> 'a Variable outcome" where
  "Variable_init ps v =
     (let self = \<lparr>possibilities = ps, stored_value = v\<rparr>
      in case Variable_set_value self v of
           (Raised e, _) \<Rightarrow> Raised e
         | (Returned _, self') \<Rightarrow> Returned self')"

text \<open>\<open>Variable.parse\<close>; \<open>str_of\<close> is \<open>str\<close> on the type of the values.\<close>

definition Variable_parse :: "('a \<Rightarrow> string) \<Rightarrow> 'a Variable \<Rightarrow> string \<Rightarrow> 'a outcome" where
  "Variable_parse str_of self v =
     (let v' = lower (strip v)
      in case find (\<lambda>p. lower (str_of p) = v') (possibilities self) of
           Some p \<Rightarrow> Returned p
         | None \<Rightarrow> Raised ValueError)"

definition str_bool :: "bool \<Rightarrow> string" where
  "str_bool b = (if b then ''True'' else ''False'')"

definition BooleanVariable_init :: "bool \<Rightarrow> bool Variable outcome" where
  "BooleanVariable_init v = Variable_init [True, False] v"

definition BooleanVariable_parse :: "bool Variable \<Rightarrow> string \<Rightarrow> bool outcome" where
  "BooleanVariable_parse self v =
     (case Variable_parse str_bool self v of
        Returned p \<Rightarrow> Returned p
      | Raised e \<Rightarrow>
          if e = ValueError
          then (let v' = lower (strip v)
                in if v' = ''0'' \<or> v' = ''f'' then Returned False
                   else Returned (v' \<noteq> []))
          else Raised e)"

section \<open>Instrumentation of the host engine\<close>

text \<open>
  A function value of the running program is either a function of the host engine or
  the wrapper closure made by an instrumentation record; \<open>Hook k\<close> is the wrapper of
  the \<open>k\<close>-th record made.  The host state holds, for every test class, whether the
  class has a \<open>test\<close> entry of its own and what its attribute \<open>test\<close> is, and for
  every parser its attribute \<open>parse\<close>.
\<close>

datatype fnval = HostFn nat | Hook nat

record host =
  own_test :: "nat \<Rightarrow> bool"
  test_attr :: "nat \<Rightarrow> fnval"
  parse_attr :: "nat \<Rightarrow> fnval"
  hooks_made :: nat

record InstrumentedTest =
  it_test :: nat
  it_original_test :: "fnval option"

record InstrumentedParser =
  ip_parser :: nat
  ip_original_parser :: "fnval option"

definition InstrumentedTest_init :: "nat \<Rightarrow> host \<Rightarrow> InstrumentedTest \<times> host" where
  "InstrumentedTest_init cls h =
     (if own_test h cls
      then (\<lparr>it_test = cls, it_original_test = Some (test_attr h cls)\<rparr>,
            h\<lparr>test_attr := (test_attr h)(cls := Hook (hooks_made h)),
              hooks_made := Suc (hooks_made h)\<rparr>)
      else (\<lparr>it_test = cls, it_original_test = None\<rparr>, h))"

definition InstrumentedTest_enabled :: "InstrumentedTest \<Rightarrow> bool" where
  "InstrumentedTest_enabled t = (it_original_test t \<noteq> None)"

definition InstrumentedTest_uninstrument :: "InstrumentedTest \<Rightarrow> host \<Rightarrow> InstrumentedTest \<times> host" where
  "InstrumentedTest_uninstrument t h =
     (case it_original_test t of
        Some f \<Rightarrow> (t\<lparr>it_original_test := None\<rparr>, h\<lparr>test_attr := (test_attr h)(it_test t := f)\<rparr>)
      | None \<Rightarrow> (t\<lparr>it_original_test := None\<rparr>, h))"

definition InstrumentedParser_init :: "nat \<Rightarrow> host \<Rightarrow> InstrumentedParser \<times> host" where
  "InstrumentedParser_init parser h =
     (\<lparr>ip_parser = parser, ip_original_parser = Some (parse_attr h parser)\<rparr>,
      h\<lparr>parse_attr := (parse_attr h)(parser := Hook (hooks_made h)),
        hooks_made := Suc (hooks_made h)\<rparr>)"

definition InstrumentedParser_uninstrument ::
  "InstrumentedParser \<Rightarrow> host \<Rightarrow> InstrumentedParser \<times> host" where
  "InstrumentedParser_uninstrument m h =
     (case ip_original_parser m of
        Some f \<Rightarrow> (m\<lparr>ip_original_parser := None\<rparr>, h\<lparr>parse_attr := (parse_attr h)(ip_parser m := f)\<rparr>)
      | None \<Rightarrow> (m\<lparr>ip_original_parser := None\<rparr>, h))"

section \<open>The debugger\<close>

datatype StepMode = RUNNING | SINGLE_STEPPING | NEXT

text \<open>
  The attributes of a \<open>Debugger\<close>.  \<open>pdb_active\<close> says whether \<open>_pdb\<close> is set.  The two
  dictionaries \<open>variables_by_name\<close> and \<open>variable_descriptions\<close> have the single key
  \<open>break_on_parsing\<close>, bound to the variable \<open>break_on_submatching\<close> and to its
  description.  Attributes that hold objects hold them by reference: a \<open>MagicTest\<close>
  carries its identity in \<open>test_id\<close>.
\<close>

record Debugger =
  instrumented_tests :: "InstrumentedTest list"
  breakpoints :: "Breakpoint list"
  entries :: int
  step_mode :: StepMode
  last_command :: "string option"
  last_test :: "MagicTest option"
  last_parent_match :: "TestResult option"
  data :: bytes
  last_offset :: int
  last_result :: "TestResult option"
  repl_test :: "MagicTest option"
  instrumented_parsers :: "InstrumentedParser list"
  break_on_submatching :: "bool Variable"
  pdb_active :: bool
  prev_history_length :: int

type_synonym world = "host \<times> Debugger"

definition Debugger_enabled :: "Debugger \<Rightarrow> bool" where
  "Debugger_enabled self = list_ex InstrumentedTest_enabled (instrumented_tests self)"

text \<open>
  \<open>_uninstrument\<close>: every record of the two lists is uninstrumented in list order, then
  the list is replaced by an empty one.
\<close>

definition Debugger_uninstrument :: "world \<Rightarrow> world" where
  "Debugger_uninstrument w =
     (let (h, self) = w;
          h1 = fold (\<lambda>t h. snd (InstrumentedTest_uninstrument t h)) (instrumented_tests self) h;
          self1 = self\<lparr>instrumented_tests := []\<rparr>;
          h2 = fold (\<lambda>m h. snd (InstrumentedParser_uninstrument m h)) (instrumented_parsers self1) h1;
          self2 = self1\<lparr>instrumented_parsers := []\<rparr>
      in (h2, self2))"

text \<open>
  \<open>_instrument\<close>.  \<open>TEST_TYPES\<close> and \<open>PARSERS\<close> belong to the host engine and are
  parameters: the test classes in iteration order, and the items of the dictionary from
  MIME types to parsers.
\<close>

definition instrument_test :: "nat \<Rightarrow> world \<Rightarrow> world" where
  "instrument_test cls w =
     (let (h, self) = w
      in if own_test h cls
         then (let (t, h') = InstrumentedTest_init cls h
               in (h', self\<lparr>instrumented_tests := instrumented_tests self @ [t]\<rparr>))
         else (h, self))"

definition instrument_parser :: "nat \<Rightarrow> world \<Rightarrow> world" where
  "instrument_parser parser w =
     (let (h, self) = w;
          (m, h') = InstrumentedParser_init parser h
      in (h', self\<lparr>instrumented_parsers := instrumented_parsers self @ [m]\<rparr>))"

definition Debugger_instrument :: "nat list \<Rightarrow> (string \<times> nat list) list \<Rightarrow> world \<Rightarrow> world" where
  "Debugger_instrument TEST_TYPES PARSERS w =
     (let w1 = fold instrument_test TEST_TYPES w
      in if stored_value (break_on_submatching (snd w1))
         then fold (\<lambda>parsers. fold instrument_parser parsers) (map snd PARSERS) w1
         else w1)"

text \<open>
  The setter of \<open>enabled\<close>.  \<open>repl\<close> is the interactive loop the setter enters after
  instrumenting; it is a parameter, as is what the user types.  The \<open>readline\<close> history
  and the banner are left out.
\<close>

definition Debugger_set_enabled ::
  "nat list \<Rightarrow> (string \<times> nat list) list \<Rightarrow> (world \<Rightarrow> unit outcome \<times> world) \<Rightarrow>
   bool \<Rightarrow> world \<Rightarrow> unit outcome \<times> world" where
  "Debugger_set_enabled TEST_TYPES PARSERS repl is_enabled w =
     (let w1 = Debugger_uninstrument w
      in if is_enabled then repl (Debugger_instrument TEST_TYPES PARSERS w1)
         else (Returned (), w1))"

text \<open>
  The setter of \<open>BreakOnSubmatching.value\<close>: the setter of \<open>Variable\<close>, then, when the
  debugger is enabled, \<open>_uninstrument\<close> and \<open>_instrument\<close>.
\<close>

definition BreakOnSubmatching_set_value ::
  "nat list \<Rightarrow> (string \<times> nat list) list \<Rightarrow> bool \<Rightarrow> world \<Rightarrow> unit outcome \<times> world" where
  "BreakOnSubmatching_set_value TEST_TYPES PARSERS new_value w =
     (let (h, self) = w
      in case Variable_set_value (break_on_submatching self) new_value of
           (Raised e, var) \<Rightarrow> (Raised e, (h, self\<lparr>break_on_submatching := var\<rparr>))
         | (Returned _, var) \<Rightarrow>
             (let self1 = self\<lparr>break_on_submatching := var\<rparr>
              in if Debugger_enabled self1
                 then (Returned (),
                       Debugger_instrument TEST_TYPES PARSERS (Debugger_uninstrument (h, self1)))
                 else (Returned (), (h, self1))))"

text \<open>
  \<open>Debugger.__init__\<close>.  The variable is made while both instrumentation lists are
  empty, so its setter finds the debugger disabled and only the setter of \<open>Variable\<close>
  runs.
\<close>

definition Debugger_init :: "bool \<Rightarrow> Debugger outcome" where
  "Debugger_init break_on_parsing =
     (case BooleanVariable_init break_on_parsing of
        Raised e \<Rightarrow> Raised e
      | Returned var \<Rightarrow> Returned
          \<lparr>instrumented_tests = [], breakpoints = [], entries = 0, step_mode = RUNNING,
           last_command = None, last_test = None, last_parent_match = None, data = [],
           last_offset = 0, last_result = None, repl_test = None, instrumented_parsers = [],
           break_on_submatching = var, pdb_active = False, prev_history_length = 0\<rparr>)"

subsection \<open>\<open>should_break\<close>\<close>

text \<open>
  The call \<open>b.should_break(self.last_test, \<dots>)\<close> that \<open>Debugger.should_break\<close> makes.
  \<open>last_test\<close> may be \<open>None\<close>; then reading an attribute of the test raises
  \<open>AttributeError\<close>, which the two wrappers reach only when their own condition on the
  result holds.
\<close>

fun should_break_call ::
  "Breakpoint \<Rightarrow> MagicTest option \<Rightarrow> bytes \<Rightarrow> int \<Rightarrow> TestResult option \<Rightarrow> TestResult option
   \<Rightarrow> bool outcome"
where
  "should_break_call b (Some test) d off pm result =
     Returned (Breakpoint_should_break b test d off pm result)"
| "should_break_call (FailedBreakpoint parent) None d off pm result =
     (if result = None \<or> is_FailedTest (the result)
      then should_break_call parent None d off pm result else Returned False)"
| "should_break_call (MatchedBreakpoint parent) None d off pm result =
     (if result \<noteq> None \<and> \<not> is_FailedTest (the result)
      then should_break_call parent None d off pm result else Returned False)"
| "should_break_call (MimeBreakpoint mimetype) None d off pm result = Raised AttributeError"
| "should_break_call (ExtensionBreakpoint ext) None d off pm result = Raised AttributeError"
| "should_break_call (FileBreakpoint filename line_no) None d off pm result = Raised AttributeError"

text \<open>\<open>any\<close> over the generator: it stops at the first breakpoint that breaks.\<close>

fun any_should_break :: "Breakpoint list \<Rightarrow> Debugger \<Rightarrow> bool outcome" where
  "any_should_break [] self = Returned False"
| "any_should_break (b # bs) self =
     (case should_break_call b (last_test self) (data self) (last_offset self)
             (last_parent_match self) (last_result self) of
        Raised e \<Rightarrow> Raised e
      | Returned True \<Rightarrow> Returned True
      | Returned False \<Rightarrow> any_should_break bs self)"

text \<open>The truth value of an optional result: \<open>None\<close> is false.\<close>

definition result_truthy :: "TestResult option \<Rightarrow> bool" where
  "result_truthy r = (case r of None \<Rightarrow> False | Some x \<Rightarrow> truthy x)"

definition Debugger_should_break :: "Debugger \<Rightarrow> bool outcome" where
  "Debugger_should_break self =
     (if step_mode self = SINGLE_STEPPING then Returned True
      else if step_mode self = NEXT \<and> result_truthy (last_result self) then Returned True
      else any_should_break (breakpoints self) self)"

subsection \<open>\<open>debug\<close>, the hook of a test\<close>

text \<open>
  \<open>invoke\<close> is the call of a function value on a test and the triple, and \<open>repl\<close> the
  interactive loop; both belong to the environment and run in the state of the moment,
  which they may change (a test can evaluate other tests, the loop can change the
  debugger).  \<open>is_same\<close> is the comparison \<open>self.repl_test is test\<close>.
\<close>

type_synonym test_call =
  "fnval \<Rightarrow> MagicTest \<Rightarrow> bytes \<Rightarrow> int \<Rightarrow> TestResult option \<Rightarrow> world
   \<Rightarrow> TestResult option outcome \<times> world"

definition is_same :: "MagicTest option \<Rightarrow> MagicTest \<Rightarrow> bool" where
  "is_same r test = (case r of None \<Rightarrow> False | Some t \<Rightarrow> test_id t = test_id test)"

definition Debugger_debug ::
  "test_call \<Rightarrow> (world \<Rightarrow> unit outcome \<times> world) \<Rightarrow> InstrumentedTest \<Rightarrow> MagicTest \<Rightarrow> bytes \<Rightarrow> int
   \<Rightarrow> TestResult option \<Rightarrow> world \<Rightarrow> TestResult option outcome \<times> world" where
  "Debugger_debug invoke repl instrumented_test test d absolute_offset parent_match w =
     (let callee = (case it_original_test instrumented_test of
                      None \<Rightarrow> test_attr (fst w) (it_test instrumented_test)
                    | Some original \<Rightarrow> original)
      in case invoke callee test d absolute_offset parent_match w of
           (Raised e, w1) \<Rightarrow> (Raised e, w1)
         | (Returned result, (h1, self1)) \<Rightarrow>
             if is_same (repl_test self1) test then (Returned result, (h1, self1))
             else
               (let self2 = self1\<lparr>last_result := result, last_test := Some test, data := d,
                                 last_offset := absolute_offset,
                                 last_parent_match := parent_match\<rparr>
                in case Debugger_should_break self2 of
                     Raised e \<Rightarrow> (Raised e, (h1, self2))
                   | Returned True \<Rightarrow>
                       (case repl (h1, self2) of
                          (Raised e, w3) \<Rightarrow> (Raised e, w3)
                        | (Returned _, (h3, self3)) \<Rightarrow> (Returned (last_result self3), (h3, self3)))
                   | Returned False \<Rightarrow> (Returned (last_result self2), (h1, self2))))"

subsection \<open>\<open>save_context\<close>\<close>

text \<open>
  \<open>with self.save_context(): body\<close>.  \<open>__enter__\<close> of the \<open>DebugContext\<close> copies the
  attribute dictionary of the debugger into \<open>saved_state\<close>; the body runs; \<open>__exit__\<close>
  makes the copy the attribute dictionary again and returns \<open>None\<close>, so an exception
  of the body is not swallowed.  The \<open>with\<close> statement runs \<open>__exit__\<close> whether the
  body returns or raises.  The copy is shallow: what is restored is every attribute of
  the debugger, not the state of the objects the attributes refer to, and not the host.
\<close>

definition with_save_context ::
  "(world \<Rightarrow> 'a outcome \<times> world) \<Rightarrow> world \<Rightarrow> 'a outcome \<times> world" where
  "with_save_context body w =
     (let (h, self) = w;
          saved_state = self;
          (r, (h', self')) = body (h, self)
      in (r, (h', saved_state)))"

subsection \<open>Sequences of operations on the instrumentation\<close>

text \<open>
  What changes the instrumentation: an assignment to \<open>enabled\<close>, and an assignment to
  the variable \<open>break_on_parsing\<close> (the command \<open>set\<close> of the interactive loop).  A
  sequence stops at the first operation that raises.
\<close>

datatype operation = SetEnabled bool | SetBreakOnParsing bool

fun run_operation ::
  "nat list \<Rightarrow> (string \<times> nat list) list \<Rightarrow> (world \<Rightarrow> unit outcome \<times> world) \<Rightarrow>
   operation \<Rightarrow> world \<Rightarrow> unit outcome \<times> world" where
  "run_operation TEST_TYPES PARSERS repl (SetEnabled b) w =
     Debugger_set_enabled TEST_TYPES PARSERS repl b w"
| "run_operation TEST_TYPES PARSERS repl (SetBreakOnParsing b) w =
     BreakOnSubmatching_set_value TEST_TYPES PARSERS b w"

fun run_operations ::
  "nat list \<Rightarrow> (string \<times> nat list) list \<Rightarrow> (world \<Rightarrow> unit outcome \<times> world) \<Rightarrow>
   operation list \<Rightarrow> world \<Rightarrow> unit outcome \<times> world" where
  "run_operations TEST_TYPES PARSERS repl [] w = (Returned (), w)"
| "run_operations TEST_TYPES PARSERS repl (x # xs) w =
     (case run_operation TEST_TYPES PARSERS repl x w of
        (Raised e, w') \<Rightarrow> (Raised e, w')
      | (Returned _, w') \<Rightarrow> run_operations TEST_TYPES PARSERS repl xs w')"

subsection \<open>The command \<open>show\<close> of the interactive loop\<close>

text \<open>
  Output is the list of the messages written, without their styling.  \<open>str.split()\<close>
  cuts a string at runs of whitespace.
\<close>

fun split_whitespace :: "string \<Rightarrow> string \<Rightarrow> string list" where
  "split_whitespace cur [] = (if cur = [] then [] else [cur])"
| "split_whitespace cur (c # cs) =
     (if is_space c
      then (if cur = [] then split_whitespace [] cs else cur # split_whitespace [] cs)
      else split_whitespace (cur @ [c]) cs)"

definition variables_by_name :: "Debugger \<Rightarrow> (string \<times> bool Variable) list" where
  "variables_by_name self = [(''break_on_parsing'', break_on_submatching self)]"

definition variable_descriptions :: "(string \<times> string) list" where
  "variable_descriptions =
     [(''break_on_parsing'',
       ''Break when a PolyFile parser is about to be invoked and debug using PDB (default=True; disable from the command line with `--no-debug-python`)'')]"

text \<open>
  One turn of the loop of \<open>repl\<close> on the command \<open>show\<close> with the argument string
  \<open>args\<close>: the branch \<open>command == "show"\<close> and the assignment to \<open>last_command\<close> that
  follows it.  In the last case the third write evaluates
  \<open>variables_by_name[parsed[0]].value\<close> without \<open>self.\<close>: the name is not assigned in
  \<open>repl\<close>, not defined by the module and not a builtin, so its evaluation raises
  \<open>NameError\<close>, which nothing in \<open>repl\<close> catches.
\<close>

definition repl_show :: "Debugger \<Rightarrow> string \<Rightarrow> string list \<Rightarrow> unit outcome \<times> Debugger \<times> string list" where
  "repl_show self args out =
     (let parsed = split_whitespace [] (strip args);
          done = (\<lambda>out'. (Returned (), self\<lparr>last_command := Some ''show''\<rparr>, out'))
      in if length parsed > 2
         then done (out @ [''Usage: '', ''show'', '' VARIABLE\<newline>\<newline>'', ''Options:\<newline>''] @
                    concat (map (\<lambda>(name, var).
                      [''\<newline>    '' @ name @ ''\<newline>    '',
                       the (map_of variable_descriptions name), ''\<newline>''])
                      (variables_by_name self)))
         else if parsed = []
         then done (out @ concat (map (\<lambda>(i, (name, var)).
                      (if i > 0 then [''\<newline>''] else []) @
                      [name, '' = '', str_bool (stored_value var), ''\<newline>'',
                       the (map_of variable_descriptions name), ''\<newline>''])
                      (enumerate 0 (variables_by_name self))))
         else if map_of (variables_by_name self) (parsed ! 0) = None
         then done (out @ [''Error: Unknown variable '', parsed ! 0, ''\<newline>''])
         else (Raised NameError, self, out @ [parsed ! 0, '' = '']))"

subsection \<open>States of the instrumentation\<close>

text \<open>
  Relative to the host \<open>h0\<close> before the debugger was enabled: a state is \<open>clean\<close> when
  every attribute is the one of \<open>h0\<close> and both lists are empty; it is \<open>hooked\<close> when
  every record holds the function of \<open>h0\<close> as its original and every class or parser
  without a record has the attribute of \<open>h0\<close>.
\<close>

definition clean :: "host \<Rightarrow> world \<Rightarrow> bool" where
  "clean h0 w \<longleftrightarrow>
     own_test (fst w) = own_test h0 \<and> test_attr (fst w) = test_attr h0 \<and>
     parse_attr (fst w) = parse_attr h0 \<and>
     instrumented_tests (snd w) = [] \<and> instrumented_parsers (snd w) = []"

definition hooked :: "host \<Rightarrow> world \<Rightarrow> bool" where
  "hooked h0 w \<longleftrightarrow>
     own_test (fst w) = own_test h0 \<and>
     list_all (\<lambda>t. it_original_test t = Some (test_attr h0 (it_test t))) (instrumented_tests (snd w)) \<and>
     list_all (\<lambda>m. ip_original_parser m = Some (parse_attr h0 (ip_parser m))) (instrumented_parsers (snd w)) \<and>
     (\<forall>c. c \<notin> it_test ` set (instrumented_tests (snd w)) \<longrightarrow> test_attr (fst w) c = test_attr h0 c) \<and>
     (\<forall>p. p \<notin> ip_parser ` set (instrumented_parsers (snd w)) \<longrightarrow> parse_attr (fst w) p = parse_attr h0 p)"

section \<open>Concrete states used in the examples\<close>

text \<open>
  An interpreter with the default limit on the digits of \<open>int\<close>, in which a
  constructor needs the frame of its \<open>__init__\<close> only, and a host whose
  \<open>Wildcard.parse\<close> needs one frame.
\<close>

definition example_runtime :: runtime where
  "example_runtime =
     \<lparr>int_max_str_digits = 4300, init_frames = 1, wildcard_frames = (\<lambda>pattern. 1)\<rparr>"

text \<open>
  A host in which every class defines its own \<open>test\<close> and every attribute is the
  host's own function, and the debugger that \<open>Debugger(break_on_parsing=True)\<close> makes.
\<close>

definition example_host :: host where
  "example_host = \<lparr>own_test = (\<lambda>cls. True), test_attr = HostFn, parse_attr = HostFn, hooks_made = 0\<rparr>"

definition example_debugger :: Debugger where
  "example_debugger =
     \<lparr>instrumented_tests = [], breakpoints = [], entries = 0, step_mode = RUNNING,
      last_command = None, last_test = None, last_parent_match = None, data = [],
      last_offset = 0, last_result = None, repl_test = None, instrumented_parsers = [],
      break_on_submatching = \<lparr>possibilities = [True, False], stored_value = True\<rparr>,
      pdb_active = False, prev_history_length = 0\<rparr>"

definition example_test :: MagicTest where
  "example_test = \<lparr>test_id = 1,
     source_info = Some \<lparr>path = \<lparr>anchor = ''/'', names = [''etc'', ''archive'']\<rparr>, line = 525,
                         original_line = None\<rparr>,
     mimetypes = {''application/zip''}, all_extensions = {''zip''}\<rparr>"

definition example_invoke :: test_call where
  "example_invoke f test buf off pm w =
     (case f of
        HostFn n \<Rightarrow> (Returned (Some (MatchedTest (Some n))), w)
      | Hook k \<Rightarrow> (Raised (HostError k), w))"

definition example_body :: "world \<Rightarrow> unit outcome \<times> world" where
  "example_body w =
     (let (h, self) = w
      in (Raised ValueError,
          (h, self\<lparr>repl_test := Some example_test, last_result := None, last_offset := 7,
                   last_command := Some ''test'', data := [1, 2]\<rparr>)))"

text \<open>
  The user answers the prompt of the loop with \<open>continue\<close>.  In \<open>example_PARSERS\<close> one
  parser (number 7) is registered for two MIME types.  \<open>example_enabled\<close> and
  \<open>example_disabled\<close> are the states that enabling and then disabling the debugger
  reach from the initial state with these registries.
\<close>

definition repl_continue :: "world \<Rightarrow> unit outcome \<times> world" where
  "repl_continue w =
     (let (h, self) = w
      in (Returned (), (h, self\<lparr>step_mode := RUNNING, last_command := Some ''continue''\<rparr>)))"

definition example_PARSERS :: "(string \<times> nat list) list" where
  "example_PARSERS = [(''application/zip'', [7]), (''application/java-archive'', [7])]"

definition example_enabled :: world where
  "example_enabled =
     (example_host\<lparr>test_attr := HostFn(0 := Hook 0), parse_attr := HostFn(7 := Hook 2), hooks_made := 3\<rparr>,
      example_debugger\<lparr>instrumented_tests := [\<lparr>it_test = 0, it_original_test = Some (HostFn 0)\<rparr>],
        instrumented_parsers := [\<lparr>ip_parser = 7, ip_original_parser = Some (HostFn 7)\<rparr>,
                                 \<lparr>ip_parser = 7, ip_original_parser = Some (Hook 1)\<rparr>],
        step_mode := RUNNING, last_command := Some ''continue''\<rparr>)"

definition example_disabled :: world where
  "example_disabled =
     (example_host\<lparr>test_attr := HostFn, parse_attr := HostFn(7 := Hook 1), hooks_made := 3\<rparr>,
      example_debugger\<lparr>instrumented_tests := [], instrumented_parsers := [],
        step_mode := RUNNING, last_command := Some ''continue''\<rparr>)"

text \<open>A registry in which every parser is registered once.\<close>

definition example_PARSERS_once :: "(string \<times> nat list) list" where
  "example_PARSERS_once = [(''application/zip'', [7]), (''application/pdf'', [8])]"

section \<open>Properties of the breakpoint model\<close>


lemma split_not_Nil: "split sep s \<noteq> []"
  by (induction s) (auto split: list.splits)

lemma descriptions_cover_variables:
  "name \<in> fst ` set (variables_by_name self) \<Longrightarrow> map_of variable_descriptions name \<noteq> None"
  by (simp add: variables_by_name_def variable_descriptions_def)

text \<open>
  Claim C3.  The \<open>FailedBreakpoint\<close> of a breakpoint \<open>B\<close> breaks on a snapshot exactly
  when the result is absent or a \<open>FailedTest\<close> and \<open>B\<close> breaks on the snapshot; the
  \<open>MatchedBreakpoint\<close> of \<open>B\<close> breaks exactly when the result is present, is not a
  \<open>FailedTest\<close>, and \<open>B\<close> breaks on the snapshot.
\<close>

theorem wrapper_should_break:
  "Breakpoint_should_break (FailedBreakpoint B) test buf absolute_offset parent_match result =
     ((result = None \<or> (\<exists>message. result = Some (FailedTest message))) \<and>
      Breakpoint_should_break B test buf absolute_offset parent_match result)
   \<and>
   Breakpoint_should_break (MatchedBreakpoint B) test buf absolute_offset parent_match result =
     ((\<exists>r. result = Some r \<and> \<not> is_FailedTest r) \<and>
      Breakpoint_should_break B test buf absolute_offset parent_match result)"
proof (cases result)
  case None
  then show ?thesis by simp
next
  case (Some r)
  then show ?thesis by (cases r) simp_all
qed

text \<open>
  Claim C7.  A \<open>FileBreakpoint\<close> with filename \<open>F\<close> and line \<open>N\<close> matches a test exactly
  when the test has a \<open>source_info\<close> whose line is \<open>N\<close> and, when \<open>F\<close> contains a
  slash, the string of the whole source path is \<open>F\<close>, otherwise the last name of the
  source path is \<open>F\<close>.
\<close>

theorem FileBreakpoint_should_break_iff:
  "Breakpoint_should_break (FileBreakpoint F N) test buf absolute_offset parent_match result =
     (\<exists>info. source_info test = Some info \<and> line info = N \<and>
        (if CHR ''/'' \<in> set F then path_str (path info) = F else path_name (path info) = F))"
  by (cases "source_info test") auto


























text \<open>
  Two inputs on which \<open>int\<close> raises and the file form gives \<open>None\<close>: a separator
  character before the digits, and more digits than the limit allows.
\<close>

lemma FileBreakpoint_parse_separator:
  "FileBreakpoint_parse example_runtime 9 [CHR ''a'', CHR '':'', CHR 0x1C, CHR ''7''] = Returned None"
  by code_simp

lemma py_int_too_many_digits:
  "too_many_digits m (filter (\<lambda>c. c \<noteq> CHR ''_'')
       (if startswith (int_strip s) ''-'' \<or> startswith (int_strip s) ''+''
        then drop 1 (int_strip s) else int_strip s)) \<Longrightarrow>
     py_int m s = Inl ValueError"
  by (simp add: py_int_def Let_def)

section \<open>Properties of the variables\<close>

lemma lower_True: "lower (str_bool True) = ''true''"
  by code_simp

lemma lower_False: "lower (str_bool False) = ''false''"
  by code_simp

lemma Variable_parse_bool:
  "possibilities self = [True, False] \<Longrightarrow>
     Variable_parse str_bool self S =
       (if lower (strip S) = ''true'' then Returned True
        else if lower (strip S) = ''false'' then Returned False
        else Raised ValueError)"
  by (simp add: Variable_parse_def Let_def lower_True lower_False)

lemma BooleanVariable_init_eq:
  "BooleanVariable_init v = Returned \<lparr>possibilities = [True, False], stored_value = v\<rparr>"
  by (cases v) (simp_all add: BooleanVariable_init_def Variable_init_def Variable_set_value_def)

lemma BooleanVariable_parse_eq:
  "possibilities self = [True, False] \<Longrightarrow>
     BooleanVariable_parse self S = Returned (lower (strip S) \<notin> {''0'', ''f'', ''false'', ''''})"
  by (simp add: BooleanVariable_parse_def Variable_parse_bool Let_def)

text \<open>
  Claim C8, as amended.  Parsing is done by \<open>Variable.parse\<close> first, which maps the
  token \<open>false\<close> to \<open>False\<close>.  So \<open>BooleanVariable.parse\<close> returns \<open>False\<close> when the
  trimmed, lowercased input is \<open>0\<close>, \<open>f\<close> or \<open>false\<close>, and \<open>True\<close> for every other
  non-empty token.
\<close>

theorem BooleanVariable_parse_amended:
  "BooleanVariable_init v = Returned self \<Longrightarrow>
     (lower (strip S) \<in> {''0'', ''f'', ''false''} \<longrightarrow> BooleanVariable_parse self S = Returned False) \<and>
     (lower (strip S) \<notin> {''0'', ''f'', ''false''} \<and> lower (strip S) \<noteq> [] \<longrightarrow>
        BooleanVariable_parse self S = Returned True)"
proof -
  assume "BooleanVariable_init v = Returned self"
  then have "possibilities self = [True, False]"
    by (auto simp: BooleanVariable_init_eq)
  then show ?thesis
    by (auto simp: BooleanVariable_parse_eq)
qed

text \<open>
  The claim as stated fails on \<open>false\<close>: the token is not empty and is neither \<open>0\<close>
  nor \<open>f\<close>, and the result is \<open>False\<close>.
\<close>

theorem BooleanVariable_parse_counterexample:
  "BooleanVariable_init True = Returned \<lparr>possibilities = [True, False], stored_value = True\<rparr> \<and>
   lower (strip ''false'') \<noteq> ''0'' \<and> lower (strip ''false'') \<noteq> ''f'' \<and>
   lower (strip ''false'') \<noteq> [] \<and>
   BooleanVariable_parse \<lparr>possibilities = [True, False], stored_value = True\<rparr> ''false'' = Returned False"
proof -
  have "lower (strip ''false'') = ''false''" by code_simp
  then show ?thesis
    by (simp add: BooleanVariable_init_eq BooleanVariable_parse_eq)
qed

theorem BooleanVariable_parse_amended_witness:
  "BooleanVariable_init False = Returned \<lparr>possibilities = [True, False], stored_value = False\<rparr> \<and>
   BooleanVariable_parse \<lparr>possibilities = [True, False], stored_value = False\<rparr> '' F '' = Returned False \<and>
   BooleanVariable_parse \<lparr>possibilities = [True, False], stored_value = False\<rparr> ''yes'' = Returned True"
proof -
  have i: "BooleanVariable_init False = Returned \<lparr>possibilities = [True, False], stored_value = False\<rparr>"
    by (rule BooleanVariable_init_eq)
  have a: "lower (strip '' F '') = ''f''" by code_simp
  have b: "lower (strip ''yes'') = ''yes''" by code_simp
  show ?thesis
    using BooleanVariable_parse_amended [OF i, of "'' F ''"]
      BooleanVariable_parse_amended [OF i, of "''yes''"] i a b
    by simp
qed

lemma Variable_set_value_ok:
  "Variable_set_value self x = (Returned (), self') \<Longrightarrow>
     stored_value self' = x \<and> x \<in> set (possibilities self') \<and> possibilities self' = possibilities self"
  by (auto simp: Variable_set_value_def split: if_splits)

lemma Variable_set_value_bad:
  "x \<notin> set (possibilities self) \<Longrightarrow> Variable_set_value self x = (Raised ValueError, self)"
  by (simp add: Variable_set_value_def)

lemma Variable_init_ok:
  "Variable_init ps v = Returned var \<Longrightarrow> stored_value var \<in> set (possibilities var)"
  by (cases "v \<in> set ps") (auto simp: Variable_init_def Variable_set_value_def Let_def)

lemma Variable_init_bad: "v \<notin> set ps \<Longrightarrow> Variable_init ps v = Raised ValueError"
  by (simp add: Variable_init_def Variable_set_value_def)

lemma Debugger_uninstrument_var:
  "break_on_submatching (snd (Debugger_uninstrument w)) = break_on_submatching (snd w)"
  by (cases w) (simp add: Debugger_uninstrument_def Let_def)

lemma instrument_test_var:
  "break_on_submatching (snd (instrument_test cls w)) = break_on_submatching (snd w)"
  by (cases w) (simp add: instrument_test_def Let_def split: prod.splits)

lemma instrument_parser_var:
  "break_on_submatching (snd (instrument_parser p w)) = break_on_submatching (snd w)"
  by (cases w) (simp add: instrument_parser_def Let_def split: prod.splits)

lemma fold_instrument_test_var:
  "break_on_submatching (snd (fold instrument_test cs w)) = break_on_submatching (snd w)"
  by (induction cs arbitrary: w) (simp_all add: instrument_test_var)

lemma fold_instrument_parser_var:
  "break_on_submatching (snd (fold instrument_parser ps w)) = break_on_submatching (snd w)"
  by (induction ps arbitrary: w) (simp_all add: instrument_parser_var)

lemma fold_fold_instrument_parser_var:
  "break_on_submatching (snd (fold (\<lambda>parsers. fold instrument_parser parsers) pss w)) =
     break_on_submatching (snd w)"
  by (induction pss arbitrary: w) (simp_all add: fold_instrument_parser_var)

lemma Debugger_instrument_var:
  "break_on_submatching (snd (Debugger_instrument T P w)) = break_on_submatching (snd w)"
  by (simp add: Debugger_instrument_def Let_def fold_instrument_test_var fold_fold_instrument_parser_var)

lemma BreakOnSubmatching_set_value_ok:
  assumes "BreakOnSubmatching_set_value T P x (h, d) = (Returned (), (h', d'))"
  shows "stored_value (break_on_submatching d') = x \<and>
         x \<in> set (possibilities (break_on_submatching d'))"
proof -
  from assms have ok: "x \<in> set (possibilities (break_on_submatching d))"
    by (auto simp: BreakOnSubmatching_set_value_def Variable_set_value_def split: if_splits)
  let ?d1 = "d\<lparr>break_on_submatching := (break_on_submatching d)\<lparr>stored_value := x\<rparr>\<rparr>"
  from assms ok have "(h', d') = Debugger_instrument T P (Debugger_uninstrument (h, ?d1)) \<or> (h', d') = (h, ?d1)"
    by (auto simp: BreakOnSubmatching_set_value_def Variable_set_value_def Let_def split: if_splits)
  then have "break_on_submatching d' = break_on_submatching ?d1"
  proof
    assume "(h', d') = Debugger_instrument T P (Debugger_uninstrument (h, ?d1))"
    then have "d' = snd (Debugger_instrument T P (Debugger_uninstrument (h, ?d1)))"
      by (metis snd_conv)
    then show ?thesis
      by (simp add: Debugger_instrument_var Debugger_uninstrument_var)
  next
    assume "(h', d') = (h, ?d1)"
    then show ?thesis by simp
  qed
  with ok show ?thesis by simp
qed

lemma BreakOnSubmatching_set_value_bad:
  "x \<notin> set (possibilities (break_on_submatching d)) \<Longrightarrow>
     BreakOnSubmatching_set_value T P x (h, d) = (Raised ValueError, (h, d))"
  by (simp add: BreakOnSubmatching_set_value_def Variable_set_value_def)

lemma Debugger_init_var:
  "Debugger_init b = Returned dbg \<Longrightarrow>
     break_on_submatching dbg = \<lparr>possibilities = [True, False], stored_value = b\<rparr>"
  by (auto simp: Debugger_init_def BooleanVariable_init_eq)

text \<open>
  Claim C10.  The stored value of a variable is a member of its possibilities: the
  constructors of \<open>Variable\<close>, \<open>BooleanVariable\<close> and \<open>BreakOnSubmatching\<close> (the last one
  inside \<open>Debugger.__init__\<close>) return only such variables and raise \<open>ValueError\<close>
  otherwise; a successful assignment through either setter stores a member and leaves
  the list alone; an assignment of a value outside the list raises \<open>ValueError\<close> and
  changes nothing.
\<close>

theorem Variable_value_in_possibilities:
  "(Variable_init ps v = Returned var \<longrightarrow> stored_value var \<in> set (possibilities var)) \<and>
   (u \<notin> set qs \<longrightarrow> Variable_init qs u = Raised ValueError) \<and>
   (BooleanVariable_init b = Returned bvar \<longrightarrow> stored_value bvar \<in> set (possibilities bvar)) \<and>
   (Debugger_init b = Returned dbg \<longrightarrow>
      stored_value (break_on_submatching dbg) \<in> set (possibilities (break_on_submatching dbg))) \<and>
   (Variable_set_value self x = (Returned (), self') \<longrightarrow>
      stored_value self' = x \<and> x \<in> set (possibilities self') \<and>
      possibilities self' = possibilities self) \<and>
   (z \<notin> set (possibilities other) \<longrightarrow> Variable_set_value other z = (Raised ValueError, other)) \<and>
   (BreakOnSubmatching_set_value T P y (h, d) = (Returned (), (h', d')) \<longrightarrow>
      stored_value (break_on_submatching d') = y \<and>
      y \<in> set (possibilities (break_on_submatching d'))) \<and>
   (k \<notin> set (possibilities (break_on_submatching dd)) \<longrightarrow>
      BreakOnSubmatching_set_value T P k (h, dd) = (Raised ValueError, (h, dd)))"
proof -
  have bool: "BooleanVariable_init b = Returned bvar \<longrightarrow> stored_value bvar \<in> set (possibilities bvar)"
    by (auto simp: BooleanVariable_init_def dest: Variable_init_ok)
  have dbg: "Debugger_init b = Returned dbg \<longrightarrow>
      stored_value (break_on_submatching dbg) \<in> set (possibilities (break_on_submatching dbg))"
    by (auto dest: Debugger_init_var)
  show ?thesis
    using Variable_init_ok [of ps v var] Variable_init_bad [of u qs] bool dbg
      Variable_set_value_ok [of self x self'] Variable_set_value_bad [of z other]
      BreakOnSubmatching_set_value_ok [of T P y h d h' d']
      BreakOnSubmatching_set_value_bad [of k dd T P h]
    by blast
qed

lemma Debugger_init_True: "Debugger_init True = Returned example_debugger"
  by (simp add: Debugger_init_def BooleanVariable_init_eq example_debugger_def)

theorem Variable_value_in_possibilities_witness:
  "Variable_init [1, 2, 3 :: nat] 2 = Returned \<lparr>possibilities = [1, 2, 3], stored_value = 2\<rparr> \<and>
   Variable_init [1, 2, 3 :: nat] 5 = Raised ValueError \<and>
   BooleanVariable_init False = Returned \<lparr>possibilities = [True, False], stored_value = False\<rparr> \<and>
   Debugger_init True = Returned example_debugger \<and>
   stored_value (break_on_submatching example_debugger) \<in>
     set (possibilities (break_on_submatching example_debugger)) \<and>
   Variable_set_value \<lparr>possibilities = [1, 2, 3 :: nat], stored_value = 2\<rparr> 3 =
     (Returned (), \<lparr>possibilities = [1, 2, 3], stored_value = 3\<rparr>) \<and>
   Variable_set_value \<lparr>possibilities = [1, 2, 3 :: nat], stored_value = 2\<rparr> 7 =
     (Raised ValueError, \<lparr>possibilities = [1, 2, 3], stored_value = 2\<rparr>) \<and>
   BreakOnSubmatching_set_value [] [] False (example_host, example_debugger) =
     (Returned (), (example_host, example_debugger
        \<lparr>break_on_submatching := \<lparr>possibilities = [True, False], stored_value = False\<rparr>\<rparr>)) \<and>
   BreakOnSubmatching_set_value [] [] False
     (example_host, example_debugger\<lparr>break_on_submatching := \<lparr>possibilities = [True], stored_value = True\<rparr>\<rparr>) =
     (Raised ValueError,
      (example_host, example_debugger\<lparr>break_on_submatching := \<lparr>possibilities = [True], stored_value = True\<rparr>\<rparr>))"
proof -
  have a: "Variable_init [1, 2, 3 :: nat] 2 = Returned \<lparr>possibilities = [1, 2, 3], stored_value = 2\<rparr>"
    by (simp add: Variable_init_def Variable_set_value_def)
  have b: "BooleanVariable_init False = Returned \<lparr>possibilities = [True, False], stored_value = False\<rparr>"
    by (rule BooleanVariable_init_eq)
  have c: "Variable_set_value \<lparr>possibilities = [1, 2, 3 :: nat], stored_value = 2\<rparr> 3 =
     (Returned (), \<lparr>possibilities = [1, 2, 3], stored_value = 3\<rparr>)"
    by (simp add: Variable_set_value_def)
  have e: "BreakOnSubmatching_set_value [] [] False (example_host, example_debugger) =
     (Returned (), (example_host, example_debugger
        \<lparr>break_on_submatching := \<lparr>possibilities = [True, False], stored_value = False\<rparr>\<rparr>))"
    by (simp add: BreakOnSubmatching_set_value_def Variable_set_value_def example_debugger_def
        Debugger_enabled_def)
  show ?thesis
    using Variable_value_in_possibilities
      [where ps = "[1, 2, 3 :: nat]" and v = 2
         and var = "\<lparr>possibilities = [1, 2, 3], stored_value = 2\<rparr>"
         and qs = "[1, 2, 3 :: nat]" and u = 5
         and b = True and bvar = "\<lparr>possibilities = [True, False], stored_value = True\<rparr>"
         and dbg = example_debugger
         and self = "\<lparr>possibilities = [1, 2, 3 :: nat], stored_value = 2\<rparr>" and x = 3
         and self' = "\<lparr>possibilities = [1, 2, 3 :: nat], stored_value = 3\<rparr>"
         and other = "\<lparr>possibilities = [1, 2, 3 :: nat], stored_value = 2\<rparr>" and z = 7
         and T = "[]" and P = "[]" and y = False and h = example_host and d = example_debugger
         and h' = example_host
         and d' = "example_debugger
            \<lparr>break_on_submatching := \<lparr>possibilities = [True, False], stored_value = False\<rparr>\<rparr>"
         and k = False
         and dd = "example_debugger\<lparr>break_on_submatching := \<lparr>possibilities = [True], stored_value = True\<rparr>\<rparr>"]
      a b c e Debugger_init_True
    by simp
qed

section \<open>Properties of the debugger\<close>

lemma any_should_break_Some:
  "last_test self = Some t \<Longrightarrow>
     any_should_break bs self =
       Returned (\<exists>b \<in> set bs. Breakpoint_should_break b t (data self) (last_offset self)
                   (last_parent_match self) (last_result self))"
  by (induction bs) (auto split: bool.splits)

lemma should_break_call_None:
  "should_break_call b None buf off pm r \<noteq> Returned True"
  by (induction b) auto

lemma any_should_break_True_iff:
  "any_should_break bs self = Returned True \<longleftrightarrow>
     (\<exists>b \<in> set bs. should_break_call b (last_test self) (data self) (last_offset self)
                   (last_parent_match self) (last_result self) = Returned True)"
proof (cases "last_test self")
  case None
  have "any_should_break bs self \<noteq> Returned True"
    using None by (induction bs) (auto simp: should_break_call_None split: outcome.splits bool.splits)
  then show ?thesis
    using None by (simp add: should_break_call_None)
next
  case (Some t)
  then show ?thesis by (simp add: any_should_break_Some)
qed

lemma result_truthy_iff:
  "result_truthy (last_result self) = (\<exists>r. last_result self = Some r \<and> truthy r)"
  by (cases "last_result self") (simp_all add: result_truthy_def)

lemma Debugger_should_break_True_iff:
  "Debugger_should_break self = Returned True \<longleftrightarrow>
      step_mode self = SINGLE_STEPPING \<or>
      (step_mode self = NEXT \<and> (\<exists>r. last_result self = Some r \<and> truthy r)) \<or>
      (\<exists>b \<in> set (breakpoints self).
         should_break_call b (last_test self) (data self) (last_offset self)
           (last_parent_match self) (last_result self) = Returned True)"
  unfolding Debugger_should_break_def result_truthy_iff [symmetric]
  using any_should_break_True_iff [of "breakpoints self" self] by auto

lemma Debugger_should_break_with_test:
  "last_test self = Some t \<Longrightarrow>
      Debugger_should_break self =
        Returned (step_mode self = SINGLE_STEPPING \<or>
                  (step_mode self = NEXT \<and> (\<exists>r. last_result self = Some r \<and> truthy r)) \<or>
                  (\<exists>b \<in> set (breakpoints self).
                     Breakpoint_should_break b t (data self) (last_offset self)
                       (last_parent_match self) (last_result self)))"
  unfolding Debugger_should_break_def result_truthy_iff [symmetric]
  by (auto simp: any_should_break_Some)

text \<open>
  Claim C2.  In every state of the debugger \<open>should_break\<close> returns \<open>True\<close> exactly when
  the step mode is \<open>SINGLE_STEPPING\<close>, or it is \<open>NEXT\<close> and \<open>last_result\<close> is truthy, or
  the call of \<open>should_break\<close> on some breakpoint of the list with the snapshot returns
  \<open>True\<close>; nothing in the third disjunct depends on the step mode.  When a test has been
  recorded (as \<open>debug\<close> does before it asks) the call does not raise, and its result is
  this disjunction with the breakpoints evaluated on the recorded test.
\<close>

theorem Debugger_should_break_iff:
  "(Debugger_should_break self = Returned True \<longleftrightarrow>
      step_mode self = SINGLE_STEPPING \<or>
      (step_mode self = NEXT \<and> (\<exists>r. last_result self = Some r \<and> truthy r)) \<or>
      (\<exists>b \<in> set (breakpoints self).
         should_break_call b (last_test self) (data self) (last_offset self)
           (last_parent_match self) (last_result self) = Returned True)) \<and>
   (last_test self = Some t \<longrightarrow>
      Debugger_should_break self =
        Returned (step_mode self = SINGLE_STEPPING \<or>
                  (step_mode self = NEXT \<and> (\<exists>r. last_result self = Some r \<and> truthy r)) \<or>
                  (\<exists>b \<in> set (breakpoints self).
                     Breakpoint_should_break b t (data self) (last_offset self)
                       (last_parent_match self) (last_result self))))"
  using Debugger_should_break_True_iff [of self] Debugger_should_break_with_test [of self t]
  by blast

lemma Debugger_should_break_stepping:
  "step_mode self = SINGLE_STEPPING \<Longrightarrow> Debugger_should_break self = Returned True"
  by (simp add: Debugger_should_break_def)

theorem Debugger_should_break_iff_witness:
  "last_test (example_debugger\<lparr>last_test := Some example_test,
       breakpoints := [MimeBreakpoint ''*pdf'', ExtensionBreakpoint ''zip'']\<rparr>) = Some example_test \<and>
   step_mode (example_debugger\<lparr>last_test := Some example_test,
       breakpoints := [MimeBreakpoint ''*pdf'', ExtensionBreakpoint ''zip'']\<rparr>) = RUNNING \<and>
   Debugger_should_break (example_debugger\<lparr>last_test := Some example_test,
       breakpoints := [MimeBreakpoint ''*pdf'', ExtensionBreakpoint ''zip'']\<rparr>) = Returned True"
proof -
  let ?d = "example_debugger\<lparr>last_test := Some example_test,
       breakpoints := [MimeBreakpoint ''*pdf'', ExtensionBreakpoint ''zip'']\<rparr>"
  have t: "last_test ?d = Some example_test" by simp
  have b: "Breakpoint_should_break (ExtensionBreakpoint ''zip'') example_test (data ?d) (last_offset ?d)
             (last_parent_match ?d) (last_result ?d)"
    by (simp add: example_test_def)
  show ?thesis
    using Debugger_should_break_iff [of ?d example_test] t b
    by (simp add: example_debugger_def)
qed

lemma Debugger_should_break_some_test:
  "last_test self = Some t \<Longrightarrow> \<exists>b. Debugger_should_break self = Returned b"
  by (simp add: Debugger_should_break_with_test)

lemma Debugger_should_break_without_test:
  "Debugger_should_break (example_debugger\<lparr>breakpoints := [ExtensionBreakpoint ''zip'']\<rparr>) =
     Raised AttributeError"
  by (simp add: Debugger_should_break_def example_debugger_def)

text \<open>
  Claim C1.  For an installed hook (the record still holds the original function), a
  call of \<open>debug\<close> has the outcome of calling the original function directly on the
  same test and triple in the same state, the returned result or the exception raised,
  provided the interactive loop is not entered: either the test is the one the loop
  itself is running, or \<open>should_break\<close> on the updated snapshot does not say \<open>True\<close>.
\<close>

theorem debug_transparent:
  assumes "it_original_test it = Some original"
    and "\<forall>result h1 self1.
           invoke original test buf off pm w = (Returned result, (h1, self1)) \<longrightarrow>
           is_same (repl_test self1) test \<or>
           Debugger_should_break
             (self1\<lparr>last_result := result, last_test := Some test, data := buf,
                     last_offset := off, last_parent_match := pm\<rparr>) \<noteq> Returned True"
  shows "fst (Debugger_debug invoke repl it test buf off pm w) =
         fst (invoke original test buf off pm w)"
proof -
  obtain r h1 self1 where inv: "invoke original test buf off pm w = (r, (h1, self1))"
    using prod_cases3 by blast
  show ?thesis
  proof (cases r)
    case (Raised e)
    with inv assms(1) show ?thesis
      by (simp add: Debugger_debug_def)
  next
    case (Returned result)
    let ?self2 = "self1\<lparr>last_result := result, last_test := Some test, data := buf,
                     last_offset := off, last_parent_match := pm\<rparr>"
    from assms(2) inv Returned
    have no: "is_same (repl_test self1) test \<or> Debugger_should_break ?self2 \<noteq> Returned True"
      by blast
    have "last_test ?self2 = Some test" by simp
    then obtain b where b: "Debugger_should_break ?self2 = Returned b"
      using Debugger_should_break_some_test by blast
    show ?thesis
    proof (cases "is_same (repl_test self1) test")
      case True
      with inv Returned assms(1) show ?thesis
        by (simp add: Debugger_debug_def)
    next
      case False
      with no b have "Debugger_should_break ?self2 = Returned False" by simp
      with False inv Returned assms(1) show ?thesis
        by (simp add: Debugger_debug_def)
    qed
  qed
qed

theorem debug_transparent_witness:
  "it_original_test \<lparr>it_test = 0, it_original_test = Some (HostFn 4)\<rparr> = Some (HostFn 4) \<and>
   example_invoke (HostFn 4) example_test [] 0 None (example_host, example_debugger) =
     (Returned (Some (MatchedTest (Some 4))), (example_host, example_debugger)) \<and>
   Debugger_should_break
     (example_debugger\<lparr>last_result := Some (MatchedTest (Some 4)), last_test := Some example_test,
        data := [], last_offset := 0, last_parent_match := None\<rparr>) = Returned False \<and>
   fst (Debugger_debug example_invoke (\<lambda>w. (Raised SystemExit, w))
          \<lparr>it_test = 0, it_original_test = Some (HostFn 4)\<rparr> example_test [] 0 None
          (example_host, example_debugger)) = Returned (Some (MatchedTest (Some 4)))"
proof -
  have a: "it_original_test \<lparr>it_test = 0, it_original_test = Some (HostFn 4)\<rparr> = Some (HostFn 4)"
    by simp
  have b: "example_invoke (HostFn 4) example_test [] 0 None (example_host, example_debugger) =
     (Returned (Some (MatchedTest (Some 4))), (example_host, example_debugger))"
    by (simp add: example_invoke_def)
  have c: "Debugger_should_break
     (example_debugger\<lparr>last_result := Some (MatchedTest (Some 4)), last_test := Some example_test,
        data := [], last_offset := 0, last_parent_match := None\<rparr>) = Returned False"
    by (simp add: Debugger_should_break_def example_debugger_def)
  have d: "\<forall>result h1 self1.
           example_invoke (HostFn 4) example_test [] 0 None (example_host, example_debugger) =
             (Returned result, (h1, self1)) \<longrightarrow>
           is_same (repl_test self1) example_test \<or>
           Debugger_should_break
             (self1\<lparr>last_result := result, last_test := Some example_test, data := [],
                     last_offset := 0, last_parent_match := None\<rparr>) \<noteq> Returned True"
    using b c by auto
  show ?thesis
    using debug_transparent
      [where invoke = example_invoke and repl = "\<lambda>w. (Raised SystemExit, w)"
         and it = "\<lparr>it_test = 0, it_original_test = Some (HostFn 4)\<rparr>"
         and original = "HostFn 4" and test = example_test and buf = "[]" and off = 0
         and pm = None and w = "(example_host, example_debugger)", OF a d] a b c
    by simp
qed

lemma with_save_context_restores_all:
  "snd (snd (with_save_context body w)) = snd w \<and> fst (with_save_context body w) = fst (body w)"
  by (cases w) (simp add: with_save_context_def Let_def split: prod.splits)

text \<open>
  Claim C4.  Whatever the body of \<open>with self.save_context()\<close> does to the debugger, and
  whether it returns or raises, after the scope each of \<open>data\<close>, \<open>last_test\<close>,
  \<open>last_offset\<close>, \<open>last_parent_match\<close>, \<open>last_result\<close>, \<open>last_command\<close> and
  \<open>repl_test\<close> is what it was on entry, and the outcome of the body, an exception
  included, is the outcome of the statement.
\<close>

theorem save_context_restores:
  "data (snd (snd (with_save_context body w))) = data (snd w) \<and>
   last_test (snd (snd (with_save_context body w))) = last_test (snd w) \<and>
   last_offset (snd (snd (with_save_context body w))) = last_offset (snd w) \<and>
   last_parent_match (snd (snd (with_save_context body w))) = last_parent_match (snd w) \<and>
   last_result (snd (snd (with_save_context body w))) = last_result (snd w) \<and>
   last_command (snd (snd (with_save_context body w))) = last_command (snd w) \<and>
   repl_test (snd (snd (with_save_context body w))) = repl_test (snd w) \<and>
   fst (with_save_context body w) = fst (body w)"
  by (simp add: with_save_context_restores_all)

theorem save_context_restores_witness:
  "repl_test (snd (snd (example_body (example_host, example_debugger)))) = Some example_test \<and>
   snd (snd (with_save_context example_body (example_host, example_debugger))) = example_debugger \<and>
   repl_test (snd (snd (with_save_context example_body (example_host, example_debugger)))) = None \<and>
   last_offset (snd (snd (with_save_context example_body (example_host, example_debugger)))) = 0 \<and>
   fst (with_save_context example_body (example_host, example_debugger)) = Raised ValueError"
proof -
  have a: "repl_test (snd (snd (example_body (example_host, example_debugger)))) = Some example_test"
    by (simp add: example_body_def)
  have b: "fst (example_body (example_host, example_debugger)) = Raised ValueError"
    by (simp add: example_body_def)
  have c: "snd (snd (with_save_context example_body (example_host, example_debugger))) = example_debugger"
    by (simp add: with_save_context_restores_all)
  show ?thesis
    using save_context_restores [of example_body "(example_host, example_debugger)"] a b c
    by (simp add: example_debugger_def)
qed

section \<open>The interactive loop and the instrumentation\<close>

text \<open>
  Claim C9 does not hold of the code.  On \<open>show break_on_parsing\<close> the loop writes the
  name and \<open> = \<close> and then raises \<open>NameError\<close>: neither the value nor the description
  is written, and the exception leaves \<open>repl\<close>.
\<close>

theorem show_known_variable_raises:
  "repl_show example_debugger ''break_on_parsing'' [] =
     (Raised NameError, example_debugger, [''break_on_parsing'', '' = ''])"
proof -
  have "split_whitespace [] (strip ''break_on_parsing'') = [''break_on_parsing'']"
    by code_simp
  then show ?thesis
    by (simp add: repl_show_def variables_by_name_def)
qed

text \<open>On an unknown name the error is written and the loop goes on.\<close>

lemma show_unknown_variable:
  "repl_show example_debugger ''nothing'' [] =
     (Returned (), example_debugger\<lparr>last_command := Some ''show''\<rparr>,
      [''Error: Unknown variable '', ''nothing'', ''\<newline>''])"
proof -
  have "split_whitespace [] (strip ''nothing'') = [''nothing'']"
    by code_simp
  then show ?thesis
    by (simp add: repl_show_def variables_by_name_def)
qed

lemma enable_example:
  "Debugger_set_enabled [0] example_PARSERS repl_continue True (example_host, example_debugger) =
     (Returned (), example_enabled)"
  by (simp add: Debugger_set_enabled_def Debugger_uninstrument_def Debugger_instrument_def
      example_host_def example_debugger_def example_PARSERS_def repl_continue_def
      instrument_test_def instrument_parser_def InstrumentedTest_init_def InstrumentedParser_init_def
      Let_def numeral_3_eq_3 numeral_2_eq_2 example_enabled_def)

lemma disable_example:
  "Debugger_set_enabled [0] example_PARSERS repl_continue False example_enabled =
     (Returned (), example_disabled)"
  by (simp add: Debugger_set_enabled_def Debugger_uninstrument_def
      InstrumentedTest_uninstrument_def InstrumentedParser_uninstrument_def Let_def
      example_host_def example_debugger_def example_enabled_def example_disabled_def)

lemma disable_again_example:
  "Debugger_set_enabled [0] example_PARSERS repl_continue False example_disabled =
     (Returned (), example_disabled)"
  by (simp add: Debugger_set_enabled_def Debugger_uninstrument_def Let_def
      example_host_def example_debugger_def example_disabled_def)

text \<open>
  Claim C5 does not hold of the code when a parser is registered for two MIME types.
  \<open>_instrument\<close> then makes two records for the parser, the second with the wrapper of
  the first as its original; \<open>_uninstrument\<close> goes through the records in the same
  order, so the last assignment to \<open>parse\<close> puts the first wrapper back.  After enable
  and disable both lists are empty and the test class is restored, but the parser still
  carries a hook.
\<close>

theorem disable_leaves_hook_on_shared_parser:
  "run_operations [0] example_PARSERS repl_continue [SetEnabled True, SetEnabled False]
     (example_host, example_debugger) = (Returned (), example_disabled) \<and>
   instrumented_tests (snd example_disabled) = [] \<and>
   instrumented_parsers (snd example_disabled) = [] \<and>
   test_attr (fst example_disabled) 0 = test_attr example_host 0 \<and>
   parse_attr example_host 7 = HostFn 7 \<and>
   parse_attr (fst example_disabled) 7 = Hook 1"
proof -
  have "run_operations [0] example_PARSERS repl_continue [SetEnabled True, SetEnabled False]
     (example_host, example_debugger) = (Returned (), example_disabled)"
    by (simp add: enable_example disable_example)
  then show ?thesis
    by (simp add: example_disabled_def example_host_def)
qed

section \<open>Instrumentation with every class and parser registered once\<close>

lemma clean_hooked: "clean h0 w \<Longrightarrow> hooked h0 w"
  by (simp add: clean_def hooked_def)

lemma fold_uninstrument_tests:
  "list_all (\<lambda>t. it_original_test t = Some (g (it_test t))) ts \<Longrightarrow>
     test_attr (fold (\<lambda>t h. snd (InstrumentedTest_uninstrument t h)) ts h) =
       (\<lambda>c. if c \<in> it_test ` set ts then g c else test_attr h c) \<and>
     parse_attr (fold (\<lambda>t h. snd (InstrumentedTest_uninstrument t h)) ts h) = parse_attr h \<and>
     own_test (fold (\<lambda>t h. snd (InstrumentedTest_uninstrument t h)) ts h) = own_test h \<and>
     hooks_made (fold (\<lambda>t h. snd (InstrumentedTest_uninstrument t h)) ts h) = hooks_made h"
proof (induction ts arbitrary: h)
  case Nil
  then show ?case by simp
next
  case (Cons t ts)
  then show ?case
    by (auto simp: InstrumentedTest_uninstrument_def fun_eq_iff)
qed

lemma fold_uninstrument_parsers:
  "list_all (\<lambda>m. ip_original_parser m = Some (g (ip_parser m))) ms \<Longrightarrow>
     parse_attr (fold (\<lambda>m h. snd (InstrumentedParser_uninstrument m h)) ms h) =
       (\<lambda>p. if p \<in> ip_parser ` set ms then g p else parse_attr h p) \<and>
     test_attr (fold (\<lambda>m h. snd (InstrumentedParser_uninstrument m h)) ms h) = test_attr h \<and>
     own_test (fold (\<lambda>m h. snd (InstrumentedParser_uninstrument m h)) ms h) = own_test h \<and>
     hooks_made (fold (\<lambda>m h. snd (InstrumentedParser_uninstrument m h)) ms h) = hooks_made h"
proof (induction ms arbitrary: h)
  case Nil
  then show ?case by simp
next
  case (Cons m ms)
  then show ?case
    by (auto simp: InstrumentedParser_uninstrument_def fun_eq_iff)
qed

lemma uninstrument_clean:
  assumes "hooked h0 w"
  shows "clean h0 (Debugger_uninstrument w)"
proof -
  obtain h d where w: "w = (h, d)" by (cases w)
  let ?h1 = "fold (\<lambda>t h. snd (InstrumentedTest_uninstrument t h)) (instrumented_tests d) h"
  let ?h2 = "fold (\<lambda>m h. snd (InstrumentedParser_uninstrument m h)) (instrumented_parsers d) ?h1"
  from assms w have ts: "list_all (\<lambda>t. it_original_test t = Some (test_attr h0 (it_test t))) (instrumented_tests d)"
    and ms: "list_all (\<lambda>m. ip_original_parser m = Some (parse_attr h0 (ip_parser m))) (instrumented_parsers d)"
    and own: "own_test h = own_test h0"
    and rest: "\<forall>c. c \<notin> it_test ` set (instrumented_tests d) \<longrightarrow> test_attr h c = test_attr h0 c"
    and restp: "\<forall>p. p \<notin> ip_parser ` set (instrumented_parsers d) \<longrightarrow> parse_attr h p = parse_attr h0 p"
    by (simp_all add: hooked_def)
  note t = fold_uninstrument_tests [OF ts, of h]
  note p = fold_uninstrument_parsers [OF ms, of ?h1]
  have "test_attr ?h2 = test_attr h0"
    using t p rest by (auto simp: fun_eq_iff)
  moreover have "parse_attr ?h2 = parse_attr h0"
    using t p restp by (auto simp: fun_eq_iff)
  moreover have "own_test ?h2 = own_test h0"
    using t p own by simp
  ultimately show ?thesis
    by (simp add: clean_def Debugger_uninstrument_def w Let_def)
qed

lemma instrument_test_hooked:
  assumes "hooked h0 w" and "c \<notin> it_test ` set (instrumented_tests (snd w))"
  shows "hooked h0 (instrument_test c w) \<and>
         it_test ` set (instrumented_tests (snd (instrument_test c w))) \<subseteq>
           insert c (it_test ` set (instrumented_tests (snd w))) \<and>
         instrumented_parsers (snd (instrument_test c w)) = instrumented_parsers (snd w)"
  using assms
  by (cases w) (auto simp: hooked_def instrument_test_def InstrumentedTest_init_def Let_def)

lemma fold_instrument_test_hooked:
  "hooked h0 w \<Longrightarrow> distinct cs \<Longrightarrow> set cs \<inter> it_test ` set (instrumented_tests (snd w)) = {} \<Longrightarrow>
     hooked h0 (fold instrument_test cs w) \<and>
     instrumented_parsers (snd (fold instrument_test cs w)) = instrumented_parsers (snd w)"
proof (induction cs arbitrary: w)
  case Nil
  then show ?case by simp
next
  case (Cons c cs)
  from Cons.prems have c: "c \<notin> it_test ` set (instrumented_tests (snd w))" by auto
  note step = instrument_test_hooked [OF Cons.prems(1) c]
  from step have sub: "it_test ` set (instrumented_tests (snd (instrument_test c w))) \<subseteq>
      insert c (it_test ` set (instrumented_tests (snd w)))"
    by blast
  from Cons.prems have "set cs \<inter> insert c (it_test ` set (instrumented_tests (snd w))) = {}"
    by auto
  with sub have "set cs \<inter> it_test ` set (instrumented_tests (snd (instrument_test c w))) = {}"
    by blast
  with Cons.IH [of "instrument_test c w"] step Cons.prems show ?case
    by simp
qed

lemma instrument_parser_hooked:
  assumes "hooked h0 w" and "p \<notin> ip_parser ` set (instrumented_parsers (snd w))"
  shows "hooked h0 (instrument_parser p w) \<and>
         ip_parser ` set (instrumented_parsers (snd (instrument_parser p w))) \<subseteq>
           insert p (ip_parser ` set (instrumented_parsers (snd w)))"
  using assms
  by (cases w) (auto simp: hooked_def instrument_parser_def InstrumentedParser_init_def Let_def)

lemma fold_instrument_parser_hooked:
  "hooked h0 w \<Longrightarrow> distinct ps \<Longrightarrow> set ps \<inter> ip_parser ` set (instrumented_parsers (snd w)) = {} \<Longrightarrow>
     hooked h0 (fold instrument_parser ps w)"
proof (induction ps arbitrary: w)
  case Nil
  then show ?case by simp
next
  case (Cons p ps)
  from Cons.prems have p: "p \<notin> ip_parser ` set (instrumented_parsers (snd w))" by auto
  note step = instrument_parser_hooked [OF Cons.prems(1) p]
  from step have sub: "ip_parser ` set (instrumented_parsers (snd (instrument_parser p w))) \<subseteq>
      insert p (ip_parser ` set (instrumented_parsers (snd w)))"
    by blast
  from Cons.prems have "set ps \<inter> insert p (ip_parser ` set (instrumented_parsers (snd w))) = {}"
    by auto
  with sub have "set ps \<inter> ip_parser ` set (instrumented_parsers (snd (instrument_parser p w))) = {}"
    by blast
  with Cons.IH [of "instrument_parser p w"] step Cons.prems show ?case
    by simp
qed

lemma fold_fold_concat: "fold (\<lambda>xs. fold f xs) xss w = fold f (concat xss) w"
  by (induction xss arbitrary: w) simp_all

lemma instrument_hooked:
  assumes "clean h0 w" and "distinct T" and "distinct (concat (map snd P))"
  shows "hooked h0 (Debugger_instrument T P w)"
proof -
  from assms(1) have h: "hooked h0 w" and e: "instrumented_tests (snd w) = []"
    and ep: "instrumented_parsers (snd w) = []"
    by (simp_all add: clean_hooked clean_def)
  let ?w1 = "fold instrument_test T w"
  from fold_instrument_test_hooked [OF h assms(2)] e ep
  have w1: "hooked h0 ?w1" and p1: "instrumented_parsers (snd ?w1) = []"
    by simp_all
  have "hooked h0 (fold instrument_parser (concat (map snd P)) ?w1)"
    using fold_instrument_parser_hooked [OF w1 assms(3)] p1 by simp
  then have "hooked h0 (fold (\<lambda>parsers. fold instrument_parser parsers) (map snd P) ?w1)"
    by (simp add: fold_fold_concat)
  with w1 show ?thesis
    by (simp add: Debugger_instrument_def Let_def)
qed

lemma run_operation_hooked:
  assumes "distinct T" and "distinct (concat (map snd P))"
    and "\<forall>w. hooked h0 w \<longrightarrow> hooked h0 (snd (repl w))"
    and "hooked h0 w"
  shows "hooked h0 (snd (run_operation T P repl x w))"
proof (cases x)
  case (SetEnabled b)
  have "hooked h0 (Debugger_instrument T P (Debugger_uninstrument w))"
    using instrument_hooked [OF uninstrument_clean [OF assms(4)] assms(1,2)] .
  moreover have "hooked h0 (Debugger_uninstrument w)"
    using uninstrument_clean [OF assms(4)] by (rule clean_hooked)
  moreover have "hooked h0 (Debugger_instrument T P (Debugger_uninstrument w)) \<longrightarrow>
      hooked h0 (snd (repl (Debugger_instrument T P (Debugger_uninstrument w))))"
    using assms(3) by blast
  ultimately show ?thesis
    using SetEnabled by (simp add: Debugger_set_enabled_def Let_def)
next
  case (SetBreakOnParsing b)
  obtain h d where w: "w = (h, d)" by (cases w)
  have same: "\<And>var. hooked h0 (h, d\<lparr>break_on_submatching := var\<rparr>)"
    using assms(4) w by (simp add: hooked_def)
  have "\<And>var. hooked h0 (Debugger_instrument T P (Debugger_uninstrument (h, d\<lparr>break_on_submatching := var\<rparr>)))"
    using instrument_hooked [OF uninstrument_clean [OF same] assms(1,2)] .
  with same show ?thesis
    using SetBreakOnParsing w assms(4)
    by (auto simp: BreakOnSubmatching_set_value_def Variable_set_value_def Let_def)
qed

lemma run_operations_hooked:
  assumes "distinct T" and "distinct (concat (map snd P))"
    and "\<forall>w. hooked h0 w \<longrightarrow> hooked h0 (snd (repl w))"
  shows "hooked h0 w \<Longrightarrow> hooked h0 (snd (run_operations T P repl xs w))"
proof (induction xs arbitrary: w)
  case Nil
  then show ?case by simp
next
  case (Cons x xs)
  obtain r w' where step: "run_operation T P repl x w = (r, w')"
    by (cases "run_operation T P repl x w")
  have "hooked h0 w'"
    using run_operation_hooked [OF assms Cons.prems, of x] step by simp
  with Cons.IH [of w'] step show ?case
    by (cases r) simp_all
qed

lemma run_operations_append:
  "run_operations T P repl (xs @ ys) w =
     (case run_operations T P repl xs w of
        (Raised e, w') \<Rightarrow> (Raised e, w')
      | (Returned _, w') \<Rightarrow> run_operations T P repl ys w')"
  by (induction xs arbitrary: w) (auto split: prod.splits outcome.splits)

lemma uninstrument_of_clean: "clean h0 w \<Longrightarrow> Debugger_uninstrument w = w"
  by (cases w) (simp add: clean_def Debugger_uninstrument_def Let_def)

text \<open>
  When \<open>_instrument\<close> meets every test class and every parser once, and the interactive
  loop leaves the instrumentation alone or changes it through the variable only, then
  after any sequence of operations that ends with a disable every attribute is the one
  from before, both lists are empty, and a further disable changes nothing.
\<close>

theorem disable_restores_when_registered_once:
  assumes "distinct T" and "distinct (concat (map snd P))"
    and "\<forall>w. hooked h0 w \<longrightarrow> hooked h0 (snd (repl w))"
    and "clean h0 w"
    and "run_operations T P repl (xs @ [SetEnabled False]) w = (Returned (), (h, d))"
  shows "test_attr h = test_attr h0 \<and> parse_attr h = parse_attr h0 \<and>
         instrumented_tests d = [] \<and> instrumented_parsers d = [] \<and>
         Debugger_set_enabled T P repl False (h, d) = (Returned (), (h, d))"
proof -
  obtain r w1 where xs: "run_operations T P repl xs w = (r, w1)"
    by (cases "run_operations T P repl xs w")
  have hk: "hooked h0 w1"
    using run_operations_hooked [OF assms(1-3) clean_hooked [OF assms(4)], of xs] xs by simp
  from assms(5) xs have r: "r = Returned ()" and last: "Debugger_set_enabled T P repl False w1 = (Returned (), (h, d))"
    by (auto simp: run_operations_append split: outcome.splits prod.splits)
  from last have "(h, d) = Debugger_uninstrument w1"
    by (simp add: Debugger_set_enabled_def Let_def)
  with uninstrument_clean [OF hk] have c: "clean h0 (h, d)" by simp
  then show ?thesis
    by (simp add: clean_def Debugger_set_enabled_def Let_def uninstrument_of_clean [OF c])
qed

lemma repl_continue_hooked: "\<forall>w. hooked h0 w \<longrightarrow> hooked h0 (snd (repl_continue w))"
  by (auto simp: hooked_def repl_continue_def)

lemma example_run_returns:
  "fst (run_operations [0] example_PARSERS_once repl_continue
          [SetEnabled True, SetBreakOnParsing False, SetEnabled False]
          (example_host, example_debugger)) = Returned ()"
  by (simp add: Debugger_set_enabled_def Debugger_uninstrument_def Debugger_instrument_def
      BreakOnSubmatching_set_value_def Variable_set_value_def Debugger_enabled_def
      InstrumentedTest_enabled_def
      example_host_def example_debugger_def example_PARSERS_once_def repl_continue_def
      instrument_test_def instrument_parser_def InstrumentedTest_init_def InstrumentedParser_init_def
      InstrumentedTest_uninstrument_def InstrumentedParser_uninstrument_def Let_def)

theorem disable_restores_when_registered_once_witness:
  "distinct [0 :: nat] \<and> distinct (concat (map snd example_PARSERS_once)) \<and>
   clean example_host (example_host, example_debugger) \<and>
   fst (run_operations [0] example_PARSERS_once repl_continue
          [SetEnabled True, SetBreakOnParsing False, SetEnabled False]
          (example_host, example_debugger)) = Returned () \<and>
   test_attr (fst (snd (run_operations [0] example_PARSERS_once repl_continue
          [SetEnabled True, SetBreakOnParsing False, SetEnabled False]
          (example_host, example_debugger)))) = test_attr example_host \<and>
   parse_attr (fst (snd (run_operations [0] example_PARSERS_once repl_continue
          [SetEnabled True, SetBreakOnParsing False, SetEnabled False]
          (example_host, example_debugger)))) = parse_attr example_host"
proof -
  let ?run = "run_operations [0] example_PARSERS_once repl_continue
          [SetEnabled True, SetBreakOnParsing False, SetEnabled False]
          (example_host, example_debugger)"
  have a: "distinct [0 :: nat]" by simp
  have b: "distinct (concat (map snd example_PARSERS_once))"
    by (simp add: example_PARSERS_once_def)
  have c: "clean example_host (example_host, example_debugger)"
    by (simp add: clean_def example_debugger_def)
  have "?run = (fst ?run, (fst (snd ?run), snd (snd ?run)))" by simp
  with example_run_returns
  have d: "run_operations [0] example_PARSERS_once repl_continue
          ([SetEnabled True, SetBreakOnParsing False] @ [SetEnabled False])
          (example_host, example_debugger) = (Returned (), (fst (snd ?run), snd (snd ?run)))"
    by simp
  show ?thesis
    using disable_restores_when_registered_once [OF a b repl_continue_hooked c d]
      a b c example_run_returns
    by simp
qed

section \<open>Properties of the escaping\<close>

lemma printable_hex_digit: "n < 16 \<Longrightarrow> printable (hex_digit n)"
  by (auto simp: printable_def hex_digit_def)

lemma printable_escape_int: "list_all printable (string_escape_int b)"
proof -
  have "unat b div 16 < 16"
    using unsigned_less [of b, where ?'a = nat] by (simp add: div_less_iff_less_mult)
  then show ?thesis
    by (auto simp: string_escape_int_def Let_def printable_def hex_digit_def)
qed

lemma length_escape_int: "1 \<le> length (string_escape_int b) \<and> length (string_escape_int b) \<le> 4"
  by (simp add: string_escape_int_def Let_def)

text \<open>
  The escape of a byte string consists of printable ASCII characters only, has between
  one and four characters for every byte, and is the concatenation of the escapes of
  the parts of the byte string.
\<close>

theorem string_escape_printable:
  "list_all printable (string_escape bs) \<and>
   length bs \<le> length (string_escape bs) \<and> length (string_escape bs) \<le> 4 * length bs \<and>
   string_escape (bs @ cs) = string_escape bs @ string_escape cs"
proof (induction bs)
  case Nil
  then show ?case by (simp add: string_escape_def)
next
  case (Cons b bs)
  then show ?case
    using printable_escape_int [of b] length_escape_int [of b]
    by (simp add: string_escape_def)
qed

end
